theory Spec2Isabelle
  imports Complex_Main
begin

section \<open>Two-body problem: vectors, angles and the element conversions\<close>

text \<open>
  The module \<^verbatim>\<open>poliastro/twobody.py\<close> computes with NumPy double-precision numbers.
  They are modelled by the real numbers: every definition below is the exact-arithmetic
  reading of the source expression, and a theorem about it says nothing about rounding.
  In HOL \<open>x / 0 = 0\<close> and the square root of a negative number is a number, where NumPy
  gives \<open>inf\<close> or \<open>nan\<close>; a theorem whose proof needs the value of a quotient or of a root
  carries the hypotheses under which the divisor is not zero and the radicand is positive.
\<close>

subsection \<open>NumPy arrays of shape (3,)\<close>

type_synonym vec = "real \<times> real \<times> real"

text \<open>\<^verbatim>\<open>np.cross(a, b)\<close>\<close>

fun cross :: "vec \<Rightarrow> vec \<Rightarrow> vec" where
  "cross (a1, a2, a3) (b1, b2, b3) = (a2 * b3 - a3 * b2, a3 * b1 - a1 * b3, a1 * b2 - a2 * b1)"

text \<open>\<^verbatim>\<open>a.dot(b)\<close>\<close>

fun dot :: "vec \<Rightarrow> vec \<Rightarrow> real" where
  "dot (a1, a2, a3) (b1, b2, b3) = a1 * b1 + a2 * b2 + a3 * b3"

text \<open>\<^verbatim>\<open>numpy.linalg.norm(a)\<close>: the 2-norm \<open>sqrt(sum(abs(a)**2))\<close>\<close>

fun norm_vec :: "vec \<Rightarrow> real" where
  "norm_vec (a1, a2, a3) = sqrt (\<bar>a1\<bar>\<^sup>2 + \<bar>a2\<bar>\<^sup>2 + \<bar>a3\<bar>\<^sup>2)"

text \<open>\<^verbatim>\<open>array * scalar\<close>, \<^verbatim>\<open>scalar * array\<close>, \<^verbatim>\<open>array / scalar\<close>, \<^verbatim>\<open>array - array\<close>\<close>

fun vmul :: "vec \<Rightarrow> real \<Rightarrow> vec" where
  "vmul (a1, a2, a3) c = (a1 * c, a2 * c, a3 * c)"

fun smul :: "real \<Rightarrow> vec \<Rightarrow> vec" where
  "smul c (a1, a2, a3) = (c * a1, c * a2, c * a3)"

fun vdiv :: "vec \<Rightarrow> real \<Rightarrow> vec" where
  "vdiv (a1, a2, a3) c = (a1 / c, a2 / c, a3 / c)"

fun vsub :: "vec \<Rightarrow> vec \<Rightarrow> vec" where
  "vsub (a1, a2, a3) (b1, b2, b3) = (a1 - b1, a2 - b2, a3 - b3)"

text \<open>Indexing \<^verbatim>\<open>a[0]\<close>, \<^verbatim>\<open>a[1]\<close>, \<^verbatim>\<open>a[2]\<close>\<close>

fun idx0 :: "vec \<Rightarrow> real" where "idx0 (a1, a2, a3) = a1"
fun idx1 :: "vec \<Rightarrow> real" where "idx1 (a1, a2, a3) = a2"
fun idx2 :: "vec \<Rightarrow> real" where "idx2 (a1, a2, a3) = a3"

subsection \<open>Angles\<close>

text \<open>
  \<^verbatim>\<open>np.arctan2(y, x)\<close>: the angle of the point \<open>(x, y)\<close>, in \<open>(-\<pi>, \<pi>]\<close>, by the quadrant
  rules of C's \<^verbatim>\<open>atan2\<close>; \<open>arctan2 0 0 = 0\<close>.
\<close>

definition arctan2 :: "real \<Rightarrow> real \<Rightarrow> real" where
  "arctan2 y x =
     (if 0 < x then arctan (y / x)
      else if x < 0 then (if 0 \<le> y then arctan (y / x) + pi else arctan (y / x) - pi)
      else if 0 < y then pi / 2
      else if y < 0 then - (pi / 2)
      else 0)"

text \<open>
  The operator \<^verbatim>\<open>%\<close> on floats (\<^verbatim>\<open>np.remainder\<close>): the remainder of floored division,
  which has the sign of the divisor.
\<close>

definition pymod :: "real \<Rightarrow> real \<Rightarrow> real" where
  "pymod x m = x - m * of_int \<lfloor>x / m\<rfloor>"

subsection \<open>Rotation of the coordinate system\<close>

datatype axis = X | Y | Z

text \<open>
  Modelled from the spec: \<^verbatim>\<open>poliastro.util.transform\<close>, which \<^verbatim>\<open>twobody.py\<close> imports and
  \<^verbatim>\<open>coe2rv\<close> calls, is not among the sources. Section 4.1 of the specification
  describes it as the rotation of a 3-vector about a principal axis by a signed angle,
  by the standard right-handed rotation matrix of that axis, used to build the
  perifocal-to-inertial frame transform. The function is a coordinate transformation:
  \<open>transform v \<theta> ax\<close> gives the components of \<open>v\<close> in the frame turned by the
  right-handed angle \<open>\<theta>\<close> about \<open>ax\<close> (the matrices ROT1, ROT2, ROT3 of astrodynamics).
  This is the reading under which the sequence of section 4.2, step 3, with the angles
  \<open>- argp\<close>, \<open>- inc\<close>, \<open>- raan\<close>, leads from the perifocal frame to the inertial one.
\<close>

fun transform :: "vec \<Rightarrow> real \<Rightarrow> axis \<Rightarrow> vec" where
  "transform (x, y, z) angle X = (x, cos angle * y + sin angle * z, - sin angle * y + cos angle * z)"
| "transform (x, y, z) angle Y = (cos angle * x - sin angle * z, y, sin angle * x + cos angle * z)"
| "transform (x, y, z) angle Z = (cos angle * x + sin angle * y, - sin angle * x + cos angle * y, z)"

subsection \<open>\<^verbatim>\<open>coe2rv\<close>: from orbital elements to vectors\<close>

definition coe2rv :: "real \<Rightarrow> real \<Rightarrow> real \<Rightarrow> real \<Rightarrow> real \<Rightarrow> real \<Rightarrow> real \<Rightarrow> vec \<times> vec" where
  "coe2rv k a ecc inc raan argp nu =
     (let p = a * (1 - ecc\<^sup>2);
          r_pqw = vmul (cos nu / (1 + ecc * cos nu), sin nu / (1 + ecc * cos nu), 0) p;
          v_pqw = vmul (- sin nu, ecc + cos nu, 0) (sqrt (k / p));
          r_ijk = transform r_pqw (- argp) Z;
          r_ijk = transform r_ijk (- inc) X;
          r_ijk = transform r_ijk (- raan) Z;
          v_ijk = transform v_pqw (- argp) Z;
          v_ijk = transform v_ijk (- inc) X;
          v_ijk = transform v_ijk (- raan) Z
      in (r_ijk, v_ijk))"

subsection \<open>\<^verbatim>\<open>rv2coe\<close>: from vectors to orbital elements\<close>

definition rv2coe :: "real \<Rightarrow> vec \<Rightarrow> vec \<Rightarrow> real \<times> real \<times> real \<times> real \<times> real \<times> real" where
  "rv2coe k r v =
     (let h = cross r v;
          n = vdiv (cross (0, 0, 1) h) (norm_vec h);
          e = vdiv (vsub (smul (dot v v - k / norm_vec r) r) (smul (dot r v) v)) k;
          ecc = norm_vec e;
          p = dot h h / k;
          a = p / (1 - ecc\<^sup>2);
          inc = arccos (idx2 h / norm_vec h);
          raan = pymod (arctan2 (idx1 n) (idx0 n)) (2 * pi);
          argp = pymod (arctan2 (dot h (cross n e) / norm_vec h) (dot e n)) (2 * pi);
          nu = pymod (arctan2 (dot h (cross e r) / norm_vec h) (dot r e)) (2 * pi)
      in (a, ecc, inc, raan, argp, nu))"

section \<open>The conversions as the specification words them\<close>

text \<open>
  The definitions of this section follow sections 4.2 and 4.3 of the specification, not
  the source; they are what the source functions are compared with.
\<close>

subsection \<open>Section 4.2: elements to vectors\<close>





subsection \<open>Section 4.3: vectors to elements\<close>










section \<open>The class \<^verbatim>\<open>State\<close> and the propagator \<^verbatim>\<open>kepler\<close>\<close>

subsection \<open>Exceptions\<close>

text \<open>
  A call returns \<open>Inl\<close> of the exception it raises or \<open>Inr\<close> of its result.
  \<open>UnitConversionError\<close> is what \<^verbatim>\<open>Quantity.to\<close> raises between incompatible units,
  \<open>AttributeError\<close> and \<open>TypeError\<close> what Python raises when an object lacks the
  attribute read or is not a sequence.
\<close>

datatype error =
    ValueError string
  | UnitsError string
  | UnitConversionError
  | RuntimeError string
  | AssertionError
  | UnicodeDecodeError
  | AttributeError
  | TypeError

subsection \<open>Units and quantities of \<^verbatim>\<open>astropy.units\<close>\<close>

text \<open>
  A unit is its factor to the SI or radian base and its exponents of length, time and
  angle; a quantity is a number (or a 3-array) with a unit. Two units convert into each
  other when their exponents agree.
\<close>

record aunit =
  scale :: real
  len_exp :: rat
  time_exp :: rat
  angle_exp :: rat

definition u_m :: aunit where "u_m = \<lparr>scale = 1, len_exp = 1, time_exp = 0, angle_exp = 0\<rparr>"
definition u_km :: aunit where "u_km = \<lparr>scale = 1000, len_exp = 1, time_exp = 0, angle_exp = 0\<rparr>"
definition u_s :: aunit where "u_s = \<lparr>scale = 1, len_exp = 0, time_exp = 1, angle_exp = 0\<rparr>"
definition u_rad :: aunit where "u_rad = \<lparr>scale = 1, len_exp = 0, time_exp = 0, angle_exp = 1\<rparr>"
definition u_deg :: aunit where "u_deg = \<lparr>scale = pi / 180, len_exp = 0, time_exp = 0, angle_exp = 1\<rparr>"
definition u_one :: aunit where "u_one = \<lparr>scale = 1, len_exp = 0, time_exp = 0, angle_exp = 0\<rparr>"

text \<open>\<^verbatim>\<open>u1 * u2\<close>, \<^verbatim>\<open>u1 / u2\<close>, \<^verbatim>\<open>u ** n\<close> and the unit of \<^verbatim>\<open>np.sqrt\<close> of a quantity\<close>

definition umul :: "aunit \<Rightarrow> aunit \<Rightarrow> aunit" where
  "umul u1 u2 = \<lparr>scale = scale u1 * scale u2, len_exp = len_exp u1 + len_exp u2,
                 time_exp = time_exp u1 + time_exp u2, angle_exp = angle_exp u1 + angle_exp u2\<rparr>"

definition udiv :: "aunit \<Rightarrow> aunit \<Rightarrow> aunit" where
  "udiv u1 u2 = \<lparr>scale = scale u1 / scale u2, len_exp = len_exp u1 - len_exp u2,
                 time_exp = time_exp u1 - time_exp u2, angle_exp = angle_exp u1 - angle_exp u2\<rparr>"

definition upow :: "aunit \<Rightarrow> nat \<Rightarrow> aunit" where
  "upow u1 n = \<lparr>scale = scale u1 ^ n, len_exp = len_exp u1 * of_nat n,
                time_exp = time_exp u1 * of_nat n, angle_exp = angle_exp u1 * of_nat n\<rparr>"

definition usqrt :: "aunit \<Rightarrow> aunit" where
  "usqrt u1 = \<lparr>scale = sqrt (scale u1), len_exp = len_exp u1 / 2,
               time_exp = time_exp u1 / 2, angle_exp = angle_exp u1 / 2\<rparr>"

text \<open>\<^verbatim>\<open>u.km ** 3 / u.s ** 2\<close>, \<^verbatim>\<open>u.km / u.s\<close> and \<^verbatim>\<open>u.m / u.s\<close>\<close>

definition u_km3_s2 :: aunit where "u_km3_s2 = udiv (upow u_km 3) (upow u_s 2)"
definition u_km_s :: aunit where "u_km_s = udiv u_km u_s"
definition u_m_s :: aunit where "u_m_s = udiv u_m u_s"

definition same_dimension :: "aunit \<Rightarrow> aunit \<Rightarrow> bool" where
  "same_dimension u1 u2 \<longleftrightarrow>
     len_exp u1 = len_exp u2 \<and> time_exp u1 = time_exp u2 \<and> angle_exp u1 = angle_exp u2"

record quantity =
  magnitude :: real
  qunit :: aunit

record vquantity =
  vmagnitude :: vec
  vunit :: aunit

text \<open>
  \<^verbatim>\<open>q.to(u)\<close>: the same quantity in the unit \<open>u\<close>, or the conversion error. \<open>convert\<close>
  is the conversion itself, used alone where the two units are fixed and compatible
  (radians to degrees).
\<close>

definition convert :: "quantity \<Rightarrow> aunit \<Rightarrow> quantity" where
  "convert q u = \<lparr>magnitude = magnitude q * scale (qunit q) / scale u, qunit = u\<rparr>"

definition Quantity_to :: "quantity \<Rightarrow> aunit \<Rightarrow> error + quantity" where
  "Quantity_to q u =
     (if same_dimension (qunit q) u then Inr (convert q u) else Inl UnitConversionError)"

definition Quantity_to_vec :: "vquantity \<Rightarrow> aunit \<Rightarrow> error + vquantity" where
  "Quantity_to_vec q u =
     (if same_dimension (vunit q) u
      then Inr \<lparr>vmagnitude = vmul (vmagnitude q) (scale (vunit q) / scale u), vunit = u\<rparr>
      else Inl UnitConversionError)"

text \<open>
  Modelled from the spec: \<^verbatim>\<open>poliastro.util.check_units\<close>, which \<^verbatim>\<open>twobody.py\<close> imports, is
  not among the sources. Section 6 of the specification describes it as the validation
  that a list of physical quantities carries the expected physical dimensions. It is
  given the units of the quantities and the expected units.
\<close>

definition check_units :: "aunit list \<Rightarrow> aunit list \<Rightarrow> bool" where
  "check_units quantities units = list_all2 same_dimension quantities units"

subsection \<open>Objects, the heap and the record of calls\<close>

text \<open>
  The attributes of a \<^verbatim>\<open>State\<close> object. The attractor and the cached elements are
  references to other objects; \<open>self_elements = None\<close> is Python's \<^verbatim>\<open>None\<close>. The epoch, an
  \<^verbatim>\<open>astropy.time.Time\<close>, is a number of seconds.
\<close>

record state =
  self_attractor :: nat
  self_r :: vquantity
  self_v :: vquantity
  self_epoch :: real
  self_elements :: "nat option"

text \<open>
  The objects the module handles: an attractor with its gravitational parameter \<^verbatim>\<open>k\<close>, a
  tuple or list of quantities (the orbital elements), and a \<^verbatim>\<open>State\<close>. A reference is an
  index into the heap, and a new object is put at the end of it.
\<close>

datatype pyobj = Body quantity | Seq "quantity list" | StateObj state

text \<open>
  The calls made to the collaborators, in order: the unit check, \<^verbatim>\<open>coe2rv\<close>, \<^verbatim>\<open>rv2coe\<close>
  and the solver \<^verbatim>\<open>_ast2body.kepler\<close>, each with its arguments.
\<close>

datatype call =
    CheckUnitsCall "aunit list" "aunit list"
  | Coe2rvCall quantity quantity quantity quantity quantity quantity quantity
  | Rv2coeCall real vec vec
  | SolverCall vec vec real real

record world =
  heap :: "pyobj list"
  calls :: "call list"

definition deref :: "pyobj list \<Rightarrow> nat \<Rightarrow> pyobj option" where
  "deref h ref = (if ref < length h then Some (h ! ref) else None)"

definition new_obj :: "pyobj \<Rightarrow> world \<Rightarrow> nat \<times> world" where
  "new_obj obj w = (length (heap w), w\<lparr>heap := heap w @ [obj]\<rparr>)"

definition record_call :: "call \<Rightarrow> world \<Rightarrow> world" where
  "record_call c w = w\<lparr>calls := calls w @ [c]\<rparr>"

text \<open>The truth value of \<^verbatim>\<open>self._elements\<close>: \<^verbatim>\<open>None\<close> and an empty sequence are false.\<close>

definition truthy :: "pyobj list \<Rightarrow> nat option \<Rightarrow> bool" where
  "truthy h x =
     (case x of
        None \<Rightarrow> False
      | Some ref \<Rightarrow> (case deref h ref of Some (Seq xs) \<Rightarrow> xs \<noteq> [] | _ \<Rightarrow> True))"

subsection \<open>\<^verbatim>\<open>coe2rv\<close> on quantities\<close>

text \<open>
  \<^verbatim>\<open>from_elements\<close> calls \<^verbatim>\<open>coe2rv\<close> with quantities. The numbers are those of \<open>coe2rv\<close> on
  the magnitudes, the eccentricity without unit and the angles in radians (what
  \<^verbatim>\<open>np.cos\<close> and \<^verbatim>\<open>np.sin\<close> take of a quantity); the position has the unit of \<open>a\<close> and the
  velocity the unit of \<open>sqrt (k / p)\<close>.
\<close>

definition unscaled :: "quantity \<Rightarrow> real" where
  "unscaled q = magnitude q * scale (qunit q)"

definition coe2rv_q ::
  "quantity \<Rightarrow> quantity \<Rightarrow> quantity \<Rightarrow> quantity \<Rightarrow> quantity \<Rightarrow> quantity \<Rightarrow> quantity
     \<Rightarrow> vquantity \<times> vquantity" where
  "coe2rv_q k a ecc inc raan argp nu =
     (case coe2rv (magnitude k) (magnitude a) (unscaled ecc)
                  (unscaled inc) (unscaled raan) (unscaled argp) (unscaled nu) of
        (r, v) \<Rightarrow> (\<lparr>vmagnitude = r, vunit = qunit a\<rparr>,
                   \<lparr>vmagnitude = v, vunit = usqrt (udiv (qunit k) (qunit a))\<rparr>))"

subsection \<open>The class \<^verbatim>\<open>State\<close>\<close>

text \<open>\<^verbatim>\<open>State.__init__\<close>: a new object with an empty element cache\<close>

definition State_init :: "nat \<Rightarrow> vquantity \<Rightarrow> vquantity \<Rightarrow> real \<Rightarrow> world \<Rightarrow> nat \<times> world" where
  "State_init attractor r v epoch w =
     new_obj (StateObj \<lparr>self_attractor = attractor, self_r = r, self_v = v, self_epoch = epoch,
                        self_elements = None\<rparr>) w"

text \<open>\<^verbatim>\<open>State.from_vectors\<close>\<close>

definition State_from_vectors ::
  "nat \<Rightarrow> vquantity \<Rightarrow> vquantity \<Rightarrow> real \<Rightarrow> world \<Rightarrow> (error + nat) \<times> world" where
  "State_from_vectors attractor r v epoch w =
     (let w1 = record_call (CheckUnitsCall [vunit r, vunit v] [u_m, u_m_s]) w
      in if \<not> check_units [vunit r, vunit v] [u_m, u_m_s]
         then (Inl (UnitsError ''Units must be consistent''), w1)
         else (case State_init attractor r v epoch w1 of (ss, w2) \<Rightarrow> (Inr ss, w2)))"

text \<open>
  \<^verbatim>\<open>State.from_elements\<close>. \<open>elements\<close> is the reference to the caller's sequence; the
  assignment \<^verbatim>\<open>ss._elements = elements\<close> stores that reference in the object just created.
  Unpacking a sequence into six names raises \<^verbatim>\<open>ValueError\<close> for any other length; after the
  test of the length this branch is never taken, and neither is the one where the new
  reference is not a \<^verbatim>\<open>State\<close>.
\<close>

definition State_from_elements :: "nat \<Rightarrow> nat \<Rightarrow> real \<Rightarrow> world \<Rightarrow> (error + nat) \<times> world" where
  "State_from_elements attractor elements epoch w =
     (case deref (heap w) elements of
        Some (Seq xs) \<Rightarrow>
          if length xs \<noteq> 6 then (Inl (ValueError ''Incorrect number of parameters''), w)
          else
            (let units = [u_m, u_one, u_rad, u_rad, u_rad, u_rad];
                 w1 = record_call (CheckUnitsCall (map qunit xs) units) w
             in if \<not> check_units (map qunit xs) units
                then (Inl (UnitsError ''Units must be consistent''), w1)
                else
                  (case deref (heap w1) attractor of
                     Some (Body attractor_k) \<Rightarrow>
                       (case Quantity_to attractor_k u_km3_s2 of
                          Inl err \<Rightarrow> (Inl err, w1)
                        | Inr k \<Rightarrow>
                            (case xs of
                               [a, ecc, inc, raan, argp, nu] \<Rightarrow>
                                 (let w2 = record_call (Coe2rvCall k a ecc inc raan argp nu) w1
                                  in case coe2rv_q k a ecc inc raan argp nu of
                                       (r, v) \<Rightarrow>
                                         (case State_init attractor r v epoch w2 of
                                            (ss, w3) \<Rightarrow>
                                              (case deref (heap w3) ss of
                                                 Some (StateObj s) \<Rightarrow>
                                                   (Inr ss,
                                                    w3\<lparr>heap := (heap w3)
                                                      [ss := StateObj (s\<lparr>self_elements := Some elements\<rparr>)]\<rparr>)
                                               | _ \<Rightarrow> (Inl AttributeError, w3))))
                             | _ \<Rightarrow> (Inl (ValueError ''wrong number of values to unpack''), w1)))
                   | _ \<Rightarrow> (Inl AttributeError, w1)))
      | _ \<Rightarrow> (Inl TypeError, w))"

text \<open>
  The property \<^verbatim>\<open>State.elements\<close>. The tuple built on the computing branch is a new
  object, and \<^verbatim>\<open>self._elements\<close> is set to its reference.
\<close>

definition State_elements :: "nat \<Rightarrow> world \<Rightarrow> (error + nat) \<times> world" where
  "State_elements self w =
     (case deref (heap w) self of
        Some (StateObj s) \<Rightarrow>
          if truthy (heap w) (self_elements s) then (Inr (the (self_elements s)), w)
          else
            (case deref (heap w) (self_attractor s) of
               Some (Body attractor_k) \<Rightarrow>
                 (case Quantity_to attractor_k u_km3_s2 of
                    Inl err \<Rightarrow> (Inl err, w)
                  | Inr kq \<Rightarrow>
                 (case Quantity_to_vec (self_r s) u_km of
                    Inl err \<Rightarrow> (Inl err, w)
                  | Inr rq \<Rightarrow>
                 (case Quantity_to_vec (self_v s) u_km_s of
                    Inl err \<Rightarrow> (Inl err, w)
                  | Inr vq \<Rightarrow>
                      (let k = magnitude kq; r = vmagnitude rq; v = vmagnitude vq;
                           w1 = record_call (Rv2coeCall k r v) w
                       in case rv2coe k r v of
                            (a, ecc, inc, raan, argp, nu) \<Rightarrow>
                              (case new_obj (Seq [\<lparr>magnitude = a, qunit = u_km\<rparr>,
                                                  \<lparr>magnitude = ecc, qunit = u_one\<rparr>,
                                                  convert \<lparr>magnitude = inc, qunit = u_rad\<rparr> u_deg,
                                                  convert \<lparr>magnitude = raan, qunit = u_rad\<rparr> u_deg,
                                                  convert \<lparr>magnitude = argp, qunit = u_rad\<rparr> u_deg,
                                                  convert \<lparr>magnitude = nu, qunit = u_rad\<rparr> u_deg]) w1 of
                                 (t, w2) \<Rightarrow>
                                   (Inr t,
                                    w2\<lparr>heap := (heap w2)
                                      [self := StateObj (s\<lparr>self_elements := Some t\<rparr>)]\<rparr>))))))
             | _ \<Rightarrow> (Inl AttributeError, w))
      | _ \<Rightarrow> (Inl AttributeError, w))"

subsection \<open>\<^verbatim>\<open>kepler\<close>\<close>






subsection \<open>\<^verbatim>\<open>State.propagate\<close>\<close>




subsection \<open>Example objects\<close>

text \<open>
  The objects at which the theorems are instantiated: the Earth's gravitational parameter
  in \<open>m\<^sup>3 / s\<^sup>2\<close>, six elements with the semi-major axis in metres, and a state whose
  vectors are in \<open>km\<close> and \<open>km / s\<close>.
\<close>

definition earth_k :: quantity where
  "earth_k = \<lparr>magnitude = 398600441800000, qunit = udiv (upow u_m 3) (upow u_s 2)\<rparr>"

definition a_metres :: quantity where
  "a_metres = \<lparr>magnitude = 7000000, qunit = u_m\<rparr>"

definition ecc_tenth :: quantity where
  "ecc_tenth = \<lparr>magnitude = 1 / 10, qunit = u_one\<rparr>"

definition zero_rad :: quantity where
  "zero_rad = \<lparr>magnitude = 0, qunit = u_rad\<rparr>"

definition world_elements :: world where
  "world_elements =
     \<lparr>heap = [Body earth_k, Seq [a_metres, ecc_tenth, zero_rad, zero_rad, zero_rad, zero_rad]],
      calls = []\<rparr>"



text \<open>
  The sentence that \<open>k\<close> is in the length and time units of the elements: the unit of \<open>k\<close>
  is the cube of the unit of the semi-major axis over the square of the second.
\<close>

definition k_in_units_of :: "quantity \<Rightarrow> quantity \<Rightarrow> bool" where
  "k_in_units_of k a \<longleftrightarrow> qunit k = udiv (upow (qunit a) 3) (upow u_s 2)"

section \<open>Properties of the element conversions\<close>

subsection \<open>The remainder and the vector norm\<close>





subsection \<open>Ranges of the angles returned by \<^verbatim>\<open>rv2coe\<close>\<close>



subsection \<open>\<^verbatim>\<open>rv2coe\<close> and the formulas of section 4.3\<close>



subsection \<open>\<^verbatim>\<open>coe2rv\<close> and the steps of section 4.2\<close>




text \<open>
  The scenario of section 8: the circular equatorial orbit with \<open>k = 398600\<close> and
  \<open>a = 7000\<close>, all angles zero, is at \<open>(7000, 0, 0)\<close> with the velocity
  \<open>(0, \<surd>(398600 / 7000), 0)\<close>.
\<close>

lemma coe2rv_circular_scenario:
  "coe2rv 398600 7000 0 0 0 0 0 = ((7000, 0, 0), (0, sqrt (398600 / 7000), 0))"
  by (simp add: coe2rv_def)

subsection \<open>The angle of a point, reduced modulo \<open>2\<pi>\<close>\<close>







subsection \<open>The rotations keep products and lengths\<close>






lemma transform_vmul: "transform (vmul a c) t ax = vmul (transform a t ax) c"
  by (cases a; cases ax; simp add: algebra_simps)












subsection \<open>From the elements to the vectors and back\<close>








section \<open>Properties of \<^verbatim>\<open>kepler\<close> and of the class \<^verbatim>\<open>State\<close>\<close>

subsection \<open>The heap and the example objects\<close>

lemma deref_Some_iff: "deref h ref = Some obj \<longleftrightarrow> ref < length h \<and> h ! ref = obj"
  by (simp add: deref_def)

lemma deref_append_old: "deref h ref = Some obj \<Longrightarrow> deref (h @ xs) ref = Some obj"
  by (simp add: deref_def nth_append split: if_splits)

lemma deref_append_new: "deref (h @ [obj]) (length h) = Some obj"
  by (simp add: deref_def)

lemma example_units:
  "check_units (map qunit [a_metres, ecc_tenth, zero_rad, zero_rad, zero_rad, zero_rad])
     [u_m, u_one, u_rad, u_rad, u_rad, u_rad]"
  "same_dimension (qunit earth_k) u_km3_s2"
  by (simp_all add: check_units_def same_dimension_def a_metres_def ecc_tenth_def zero_rad_def
      earth_k_def u_km3_s2_def udiv_def upow_def u_m_def u_km_def u_s_def)

lemma earth_k_km: "convert earth_k u_km3_s2 = \<lparr>magnitude = 3986004418 / 10000, qunit = u_km3_s2\<rparr>"
  by (simp add: convert_def earth_k_def u_km3_s2_def udiv_def upow_def u_m_def u_km_def u_s_def)




lemma to_same_dimension: "same_dimension (qunit q) u \<Longrightarrow> Quantity_to q u = Inr (convert q u)"
  by (simp add: Quantity_to_def)

lemma to_vec_same_dimension:
  "same_dimension (vunit q) u \<Longrightarrow>
   Quantity_to_vec q u = Inr \<lparr>vmagnitude = vmul (vmagnitude q) (scale (vunit q) / scale u), vunit = u\<rparr>"
  by (simp add: Quantity_to_vec_def)

lemma checked_vectors_convert:
  assumes "check_units [ur, uv] [u_m, u_m_s]"
  shows "same_dimension ur u_km" and "same_dimension uv u_km_s"
  using assms
  by (simp_all add: check_units_def same_dimension_def u_km_def u_km_s_def u_m_def u_m_s_def
      udiv_def u_s_def)


subsection \<open>\<^verbatim>\<open>kepler\<close>\<close>





subsection \<open>\<^verbatim>\<open>State.from_elements\<close>\<close>

text \<open>
  Claim C6. When the sequence of elements does not have 6 components, \<^verbatim>\<open>from_elements\<close>
  raises \<^verbatim>\<open>ValueError\<close> and nothing else has happened: no unit check and no call of
  \<^verbatim>\<open>coe2rv\<close> are recorded, and no \<^verbatim>\<open>State\<close> is on the heap.
\<close>

theorem from_elements_wrong_count:
  assumes "deref (heap w) elements = Some (Seq xs)" and "length xs \<noteq> 6"
  shows "State_from_elements attractor elements epoch w =
           (Inl (ValueError ''Incorrect number of parameters''), w)"
  using assms by (simp add: State_from_elements_def)

theorem from_elements_wrong_count_witness:
  "State_from_elements 0 1 0 \<lparr>heap = [Body earth_k, Seq [a_metres, ecc_tenth, zero_rad, zero_rad, zero_rad]], calls = []\<rparr> =
     (Inl (ValueError ''Incorrect number of parameters''),
      \<lparr>heap = [Body earth_k, Seq [a_metres, ecc_tenth, zero_rad, zero_rad, zero_rad]], calls = []\<rparr>)
   \<and> State_from_elements 0 1 0 \<lparr>heap = [Body earth_k, Seq [a_metres, ecc_tenth, zero_rad, zero_rad, zero_rad, zero_rad, zero_rad]], calls = []\<rparr> =
     (Inl (ValueError ''Incorrect number of parameters''),
      \<lparr>heap = [Body earth_k, Seq [a_metres, ecc_tenth, zero_rad, zero_rad, zero_rad, zero_rad, zero_rad]], calls = []\<rparr>)"
  using from_elements_wrong_count [of "\<lparr>heap = [Body earth_k, Seq [a_metres, ecc_tenth, zero_rad, zero_rad, zero_rad]], calls = []\<rparr>"
      1 "[a_metres, ecc_tenth, zero_rad, zero_rad, zero_rad]" 0 0]
    from_elements_wrong_count [of "\<lparr>heap = [Body earth_k, Seq [a_metres, ecc_tenth, zero_rad, zero_rad, zero_rad, zero_rad, zero_rad]], calls = []\<rparr>"
      1 "[a_metres, ecc_tenth, zero_rad, zero_rad, zero_rad, zero_rad, zero_rad]" 0 0]
  by (simp add: deref_def)

lemma from_elements_success:
  assumes elems: "deref (heap w) elements = Some (Seq [a, ecc, inc, raan, argp, nu])"
    and units: "check_units (map qunit [a, ecc, inc, raan, argp, nu]) [u_m, u_one, u_rad, u_rad, u_rad, u_rad]"
    and attr: "deref (heap w) attractor = Some (Body attractor_k)"
    and kdim: "same_dimension (qunit attractor_k) u_km3_s2"
  shows "State_from_elements attractor elements epoch w =
           (Inr (length (heap w)),
            \<lparr>heap = heap w @
               [StateObj \<lparr>self_attractor = attractor,
                          self_r = fst (coe2rv_q (convert attractor_k u_km3_s2) a ecc inc raan argp nu),
                          self_v = snd (coe2rv_q (convert attractor_k u_km3_s2) a ecc inc raan argp nu),
                          self_epoch = epoch, self_elements = Some elements\<rparr>],
             calls = calls w @
               [CheckUnitsCall (map qunit [a, ecc, inc, raan, argp, nu]) [u_m, u_one, u_rad, u_rad, u_rad, u_rad],
                Coe2rvCall (convert attractor_k u_km3_s2) a ecc inc raan argp nu]\<rparr>)"
proof -
  obtain r v where rv: "coe2rv_q (convert attractor_k u_km3_s2) a ecc inc raan argp nu = (r, v)"
    by (cases "coe2rv_q (convert attractor_k u_km3_s2) a ecc inc raan argp nu")
  show ?thesis
    using assms
    by (simp add: State_from_elements_def Let_def record_call_def Quantity_to_def rv
        State_init_def new_obj_def deref_append_new)
qed

text \<open>
  Claim C7, as amended. For six elements that pass the unit check and an attractor whose
  \<open>k\<close> has the dimension of \<open>km\<^sup>3 / s\<^sup>2\<close>, \<^verbatim>\<open>from_elements\<close> converts \<open>k\<close> to \<open>km\<^sup>3 / s\<^sup>2\<close>, the
  fixed working units, whatever the units of the elements, then calls \<^verbatim>\<open>coe2rv\<close> with it,
  stores the vectors returned in a new \<^verbatim>\<open>State\<close>, and sets the element cache of that state
  to the caller's sequence itself.
\<close>

theorem from_elements_working_units:
  assumes elems: "deref (heap w) elements = Some (Seq [a, ecc, inc, raan, argp, nu])"
    and units: "check_units (map qunit [a, ecc, inc, raan, argp, nu]) [u_m, u_one, u_rad, u_rad, u_rad, u_rad]"
    and attr: "deref (heap w) attractor = Some (Body attractor_k)"
    and kdim: "same_dimension (qunit attractor_k) u_km3_s2"
  shows "State_from_elements attractor elements epoch w =
           (Inr (length (heap w)),
            \<lparr>heap = heap w @
               [StateObj \<lparr>self_attractor = attractor,
                          self_r = fst (coe2rv_q (convert attractor_k u_km3_s2) a ecc inc raan argp nu),
                          self_v = snd (coe2rv_q (convert attractor_k u_km3_s2) a ecc inc raan argp nu),
                          self_epoch = epoch, self_elements = Some elements\<rparr>],
             calls = calls w @
               [CheckUnitsCall (map qunit [a, ecc, inc, raan, argp, nu]) [u_m, u_one, u_rad, u_rad, u_rad, u_rad],
                Coe2rvCall (convert attractor_k u_km3_s2) a ecc inc raan argp nu]\<rparr>)"
  using assms by (rule from_elements_success)

theorem from_elements_working_units_witness:
  "State_from_elements 0 1 0 world_elements =
           (Inr 2,
            \<lparr>heap =
               [Body earth_k, Seq [a_metres, ecc_tenth, zero_rad, zero_rad, zero_rad, zero_rad],
                StateObj \<lparr>self_attractor = 0,
                          self_r = fst (coe2rv_q (convert earth_k u_km3_s2) a_metres ecc_tenth zero_rad zero_rad zero_rad zero_rad),
                          self_v = snd (coe2rv_q (convert earth_k u_km3_s2) a_metres ecc_tenth zero_rad zero_rad zero_rad zero_rad),
                          self_epoch = 0, self_elements = Some 1\<rparr>],
             calls =
               [CheckUnitsCall (map qunit [a_metres, ecc_tenth, zero_rad, zero_rad, zero_rad, zero_rad]) [u_m, u_one, u_rad, u_rad, u_rad, u_rad],
                Coe2rvCall (convert earth_k u_km3_s2) a_metres ecc_tenth zero_rad zero_rad zero_rad zero_rad]\<rparr>)"
  using from_elements_working_units [of world_elements 1 a_metres ecc_tenth zero_rad zero_rad zero_rad zero_rad
      0 earth_k 0] example_units [simplified]
  by (simp add: world_elements_def deref_def)

text \<open>
  The claim C7 as it is stated fails: for a semi-major axis in metres, which passes the
  unit check, \<^verbatim>\<open>coe2rv\<close> is called with \<open>k\<close> in \<open>km\<^sup>3 / s\<^sup>2\<close>, not in \<open>m\<^sup>3 / s\<^sup>2\<close>.
\<close>

theorem from_elements_k_not_in_element_units:
  "calls (snd (State_from_elements 0 1 0 world_elements)) =
     [CheckUnitsCall [u_m, u_one, u_rad, u_rad, u_rad, u_rad] [u_m, u_one, u_rad, u_rad, u_rad, u_rad],
      Coe2rvCall \<lparr>magnitude = 3986004418 / 10000, qunit = u_km3_s2\<rparr> a_metres
        ecc_tenth zero_rad zero_rad zero_rad zero_rad]
   \<and> \<not> k_in_units_of \<lparr>magnitude = 3986004418 / 10000, qunit = u_km3_s2\<rparr> a_metres"
proof -
  have "State_from_elements 0 1 0 world_elements =
           (Inr (length (heap world_elements)),
            \<lparr>heap = heap world_elements @
               [StateObj \<lparr>self_attractor = 0,
                          self_r = fst (coe2rv_q (convert earth_k u_km3_s2) a_metres ecc_tenth zero_rad zero_rad zero_rad zero_rad),
                          self_v = snd (coe2rv_q (convert earth_k u_km3_s2) a_metres ecc_tenth zero_rad zero_rad zero_rad zero_rad),
                          self_epoch = 0, self_elements = Some 1\<rparr>],
             calls = calls world_elements @
               [CheckUnitsCall (map qunit [a_metres, ecc_tenth, zero_rad, zero_rad, zero_rad, zero_rad]) [u_m, u_one, u_rad, u_rad, u_rad, u_rad],
                Coe2rvCall (convert earth_k u_km3_s2) a_metres ecc_tenth zero_rad zero_rad zero_rad zero_rad]\<rparr>)"
    by (rule from_elements_success) (simp_all add: example_units [simplified] world_elements_def deref_def)
  then have "calls (snd (State_from_elements 0 1 0 world_elements)) =
     [CheckUnitsCall [u_m, u_one, u_rad, u_rad, u_rad, u_rad] [u_m, u_one, u_rad, u_rad, u_rad, u_rad],
      Coe2rvCall \<lparr>magnitude = 3986004418 / 10000, qunit = u_km3_s2\<rparr> a_metres
        ecc_tenth zero_rad zero_rad zero_rad zero_rad]"
    by (simp add: earth_k_km world_elements_def a_metres_def ecc_tenth_def zero_rad_def)
  moreover have "\<not> k_in_units_of \<lparr>magnitude = 3986004418 / 10000, qunit = u_km3_s2\<rparr> a_metres"
    by (simp add: k_in_units_of_def a_metres_def u_km3_s2_def udiv_def upow_def u_m_def u_km_def u_s_def)
  ultimately show ?thesis by simp
qed

subsection \<open>\<^verbatim>\<open>State.propagate\<close>\<close>

lemma from_vectors_success:
  assumes "check_units [vunit r, vunit v] [u_m, u_m_s]"
  shows "State_from_vectors attractor r v epoch w =
           (Inr (length (heap w)),
            \<lparr>heap = heap w @ [StateObj \<lparr>self_attractor = attractor, self_r = r, self_v = v,
                                          self_epoch = epoch, self_elements = None\<rparr>],
             calls = calls w @ [CheckUnitsCall [vunit r, vunit v] [u_m, u_m_s]]\<rparr>)"
  using assms by (simp add: State_from_vectors_def Let_def record_call_def State_init_def new_obj_def)






subsection \<open>The accessor \<^verbatim>\<open>State.elements\<close>\<close>

lemma deg_of_rad: "convert \<lparr>magnitude = x, qunit = u_rad\<rparr> u_deg = \<lparr>magnitude = x * 180 / pi, qunit = u_deg\<rparr>"
  by (simp add: convert_def u_rad_def u_deg_def)

lemma elements_cached:
  assumes "deref (heap w) self = Some (StateObj s)"
    and "self_elements s = Some e" and "deref (heap w) e = Some (Seq xs)" and "xs \<noteq> []"
  shows "State_elements self w = (Inr e, w)"
  using assms by (simp add: State_elements_def truthy_def)

lemma elements_computed:
  assumes self: "deref (heap w) self = Some (StateObj s)"
    and none: "self_elements s = None"
    and attr: "deref (heap w) (self_attractor s) = Some (Body attractor_k)"
    and kq: "Quantity_to attractor_k u_km3_s2 = Inr kq"
    and rq: "Quantity_to_vec (self_r s) u_km = Inr rq"
    and vq: "Quantity_to_vec (self_v s) u_km_s = Inr vq"
    and coe: "rv2coe (magnitude kq) (vmagnitude rq) (vmagnitude vq) = (a, ecc, inc, raan, argp, nu)"
  shows "State_elements self w =
           (Inr (length (heap w)),
            \<lparr>heap = (heap w)[self := StateObj (s\<lparr>self_elements := Some (length (heap w))\<rparr>)] @
               [Seq [\<lparr>magnitude = a, qunit = u_km\<rparr>, \<lparr>magnitude = ecc, qunit = u_one\<rparr>,
                     \<lparr>magnitude = inc * 180 / pi, qunit = u_deg\<rparr>,
                     \<lparr>magnitude = raan * 180 / pi, qunit = u_deg\<rparr>,
                     \<lparr>magnitude = argp * 180 / pi, qunit = u_deg\<rparr>,
                     \<lparr>magnitude = nu * 180 / pi, qunit = u_deg\<rparr>]],
             calls = calls w @ [Rv2coeCall (magnitude kq) (vmagnitude rq) (vmagnitude vq)]\<rparr>)"
proof -
  have lt: "self < length (heap w)" using self by (simp add: deref_Some_iff)
  show ?thesis
    using assms lt
    by (simp add: State_elements_def truthy_def Let_def record_call_def new_obj_def deg_of_rad
        list_update_append1)
qed



text \<open>
  Claim C10. For a state made by \<^verbatim>\<open>from_elements\<close>, the accessor \<^verbatim>\<open>elements\<close> returns the
  caller's sequence itself (the same reference), whose quantities are as supplied, with
  no conversion to degrees. For a state made by \<^verbatim>\<open>from_vectors\<close>, the accessor returns a
  new tuple whose four angles are in degrees.
\<close>

theorem elements_as_supplied_or_in_degrees:
  "(deref (heap w) elements = Some (Seq [a, ecc, inc, raan, argp, nu]) \<and>
    check_units (map qunit [a, ecc, inc, raan, argp, nu]) [u_m, u_one, u_rad, u_rad, u_rad, u_rad] \<and>
    deref (heap w) attractor = Some (Body attractor_k) \<and>
    same_dimension (qunit attractor_k) u_km3_s2 \<longrightarrow>
      (case State_from_elements attractor elements epoch w of
         (res, w1) \<Rightarrow>
           res = Inr (length (heap w)) \<and>
           State_elements (length (heap w)) w1 = (Inr elements, w1) \<and>
           deref (heap w1) elements = Some (Seq [a, ecc, inc, raan, argp, nu])))
   \<and>
   (check_units [vunit r, vunit v] [u_m, u_m_s] \<and>
    deref (heap w) attractor = Some (Body attractor_k) \<and>
    same_dimension (qunit attractor_k) u_km3_s2 \<longrightarrow>
      (case State_from_vectors attractor r v epoch w of
         (res, w1) \<Rightarrow>
           res = Inr (length (heap w)) \<and>
           (case State_elements (length (heap w)) w1 of
              (res2, w2) \<Rightarrow>
                res2 = Inr (Suc (length (heap w))) \<and>
                (case rv2coe (magnitude (convert attractor_k u_km3_s2))
                             (vmul (vmagnitude r) (scale (vunit r) / scale u_km))
                             (vmul (vmagnitude v) (scale (vunit v) / scale u_km_s)) of
                   (a', ecc', inc', raan', argp', nu') \<Rightarrow>
                     deref (heap w2) (Suc (length (heap w))) =
                       Some (Seq [\<lparr>magnitude = a', qunit = u_km\<rparr>, \<lparr>magnitude = ecc', qunit = u_one\<rparr>,
                                  \<lparr>magnitude = inc' * 180 / pi, qunit = u_deg\<rparr>,
                                  \<lparr>magnitude = raan' * 180 / pi, qunit = u_deg\<rparr>,
                                  \<lparr>magnitude = argp' * 180 / pi, qunit = u_deg\<rparr>,
                                  \<lparr>magnitude = nu' * 180 / pi, qunit = u_deg\<rparr>])))))"
proof (intro conjI impI)
  assume h: "deref (heap w) elements = Some (Seq [a, ecc, inc, raan, argp, nu]) \<and>
    check_units (map qunit [a, ecc, inc, raan, argp, nu]) [u_m, u_one, u_rad, u_rad, u_rad, u_rad] \<and>
    deref (heap w) attractor = Some (Body attractor_k) \<and>
    same_dimension (qunit attractor_k) u_km3_s2"
  define ss where "ss = length (heap w)"
  define st where "st = \<lparr>self_attractor = attractor,
                          self_r = fst (coe2rv_q (convert attractor_k u_km3_s2) a ecc inc raan argp nu),
                          self_v = snd (coe2rv_q (convert attractor_k u_km3_s2) a ecc inc raan argp nu),
                          self_epoch = epoch, self_elements = Some elements\<rparr>"
  define w1 where "w1 = \<lparr>heap = heap w @ [StateObj st],
             calls = calls w @
               [CheckUnitsCall (map qunit [a, ecc, inc, raan, argp, nu]) [u_m, u_one, u_rad, u_rad, u_rad, u_rad],
                Coe2rvCall (convert attractor_k u_km3_s2) a ecc inc raan argp nu]\<rparr>"
  have fe: "State_from_elements attractor elements epoch w = (Inr ss, w1)"
    using from_elements_success [of w elements a ecc inc raan argp nu attractor attractor_k epoch] h
    by (simp add: ss_def w1_def st_def)
  have el: "deref (heap w1) elements = Some (Seq [a, ecc, inc, raan, argp, nu])"
    using h by (simp add: w1_def deref_append_old)
  have self: "deref (heap w1) ss = Some (StateObj st)"
    by (simp add: w1_def ss_def deref_append_new)
  have "State_elements ss w1 = (Inr elements, w1)"
    by (rule elements_cached [OF self _ el]) (simp_all add: st_def)
  then show "case State_from_elements attractor elements epoch w of
         (res, w1) \<Rightarrow>
           res = Inr (length (heap w)) \<and>
           State_elements (length (heap w)) w1 = (Inr elements, w1) \<and>
           deref (heap w1) elements = Some (Seq [a, ecc, inc, raan, argp, nu])"
    using el by (simp add: fe) (simp add: ss_def)
next
  assume h: "check_units [vunit r, vunit v] [u_m, u_m_s] \<and>
    deref (heap w) attractor = Some (Body attractor_k) \<and>
    same_dimension (qunit attractor_k) u_km3_s2"
  define ss where "ss = length (heap w)"
  define st where "st = \<lparr>self_attractor = attractor, self_r = r, self_v = v,
                          self_epoch = epoch, self_elements = None\<rparr>"
  define w1 where "w1 = \<lparr>heap = heap w @ [StateObj st],
             calls = calls w @ [CheckUnitsCall [vunit r, vunit v] [u_m, u_m_s]]\<rparr>"
  define kq where "kq = convert attractor_k u_km3_s2"
  define rq where "rq = \<lparr>vmagnitude = vmul (vmagnitude r) (scale (vunit r) / scale u_km), vunit = u_km\<rparr>"
  define vq where "vq = \<lparr>vmagnitude = vmul (vmagnitude v) (scale (vunit v) / scale u_km_s), vunit = u_km_s\<rparr>"
  obtain a' ecc' inc' raan' argp' nu'
    where coe: "rv2coe (magnitude kq) (vmagnitude rq) (vmagnitude vq) = (a', ecc', inc', raan', argp', nu')"
    by (cases "rv2coe (magnitude kq) (vmagnitude rq) (vmagnitude vq)") auto
  have fv: "State_from_vectors attractor r v epoch w = (Inr ss, w1)"
    using from_vectors_success [of r v attractor epoch w] h by (simp add: ss_def w1_def st_def)
  have self: "deref (heap w1) ss = Some (StateObj st)"
    by (simp add: w1_def ss_def deref_append_new)
  have attr: "deref (heap w1) (self_attractor st) = Some (Body attractor_k)"
    using h by (simp add: w1_def st_def deref_append_old)
  have k: "Quantity_to attractor_k u_km3_s2 = Inr kq"
    using h by (simp add: to_same_dimension kq_def)
  have r: "Quantity_to_vec (self_r st) u_km = Inr rq"
    using h checked_vectors_convert(1) [of "vunit r" "vunit v"]
    by (simp add: to_vec_same_dimension rq_def st_def)
  have v: "Quantity_to_vec (self_v st) u_km_s = Inr vq"
    using h checked_vectors_convert(2) [of "vunit r" "vunit v"]
    by (simp add: to_vec_same_dimension vq_def st_def)
  note comp = elements_computed [OF self _ attr k r v coe]
  have len: "length (heap w1) = Suc ss" by (simp add: w1_def ss_def)
  have "fst (State_elements ss w1) = Inr (Suc ss) \<and>
        deref (heap (snd (State_elements ss w1))) (Suc ss) =
          Some (Seq [\<lparr>magnitude = a', qunit = u_km\<rparr>, \<lparr>magnitude = ecc', qunit = u_one\<rparr>,
                                  \<lparr>magnitude = inc' * 180 / pi, qunit = u_deg\<rparr>,
                                  \<lparr>magnitude = raan' * 180 / pi, qunit = u_deg\<rparr>,
                                  \<lparr>magnitude = argp' * 180 / pi, qunit = u_deg\<rparr>,
                                  \<lparr>magnitude = nu' * 180 / pi, qunit = u_deg\<rparr>])"
    using comp by (simp add: st_def len deref_def nth_append)
  then show "case State_from_vectors attractor r v epoch w of
         (res, w1) \<Rightarrow>
           res = Inr (length (heap w)) \<and>
           (case State_elements (length (heap w)) w1 of
              (res2, w2) \<Rightarrow>
                res2 = Inr (Suc (length (heap w))) \<and>
                (case rv2coe (magnitude (convert attractor_k u_km3_s2))
                             (vmul (vmagnitude r) (scale (vunit r) / scale u_km))
                             (vmul (vmagnitude v) (scale (vunit v) / scale u_km_s)) of
                   (a', ecc', inc', raan', argp', nu') \<Rightarrow>
                     deref (heap w2) (Suc (length (heap w))) =
                       Some (Seq [\<lparr>magnitude = a', qunit = u_km\<rparr>, \<lparr>magnitude = ecc', qunit = u_one\<rparr>,
                                  \<lparr>magnitude = inc' * 180 / pi, qunit = u_deg\<rparr>,
                                  \<lparr>magnitude = raan' * 180 / pi, qunit = u_deg\<rparr>,
                                  \<lparr>magnitude = argp' * 180 / pi, qunit = u_deg\<rparr>,
                                  \<lparr>magnitude = nu' * 180 / pi, qunit = u_deg\<rparr>])))"
    using coe by (auto simp: fv ss_def [symmetric] kq_def rq_def vq_def split: prod.splits)
qed

theorem elements_as_supplied_or_in_degrees_witness:
  "(case State_from_elements 0 1 0 world_elements of
      (res, w1) \<Rightarrow>
        res = Inr 2 \<and> State_elements 2 w1 = (Inr 1, w1) \<and>
        deref (heap w1) 1 = Some (Seq [a_metres, ecc_tenth, zero_rad, zero_rad, zero_rad, zero_rad]))
   \<and>
   (case State_from_vectors 0 \<lparr>vmagnitude = (7000, 0, 0), vunit = u_km\<rparr>
           \<lparr>vmagnitude = (0, 15 / 2, 0), vunit = u_km_s\<rparr> 0 \<lparr>heap = [Body earth_k], calls = []\<rparr> of
      (res, w1) \<Rightarrow>
        res = Inr 1 \<and>
        (case State_elements 1 w1 of
           (res2, w2) \<Rightarrow>
             res2 = Inr 2 \<and>
             (case rv2coe (3986004418 / 10000) (7000, 0, 0) (0, 15 / 2, 0) of
                (a', ecc', inc', raan', argp', nu') \<Rightarrow>
                  deref (heap w2) 2 =
                    Some (Seq [\<lparr>magnitude = a', qunit = u_km\<rparr>, \<lparr>magnitude = ecc', qunit = u_one\<rparr>,
                               \<lparr>magnitude = inc' * 180 / pi, qunit = u_deg\<rparr>,
                               \<lparr>magnitude = raan' * 180 / pi, qunit = u_deg\<rparr>,
                               \<lparr>magnitude = argp' * 180 / pi, qunit = u_deg\<rparr>,
                               \<lparr>magnitude = nu' * 180 / pi, qunit = u_deg\<rparr>]))))"
proof -
  have chk: "check_units [u_km, u_km_s] [u_m, u_m_s]"
    by (simp add: check_units_def same_dimension_def u_km_def u_km_s_def u_m_def u_m_s_def udiv_def u_s_def)
  have sc: "scale u_km / scale u_km = 1" "scale u_km_s / scale u_km_s = 1"
    by (simp_all add: u_km_def u_km_s_def udiv_def u_s_def)
  note A = elements_as_supplied_or_in_degrees [where w = world_elements and elements = 1
      and a = a_metres and ecc = ecc_tenth and inc = zero_rad and raan = zero_rad and argp = zero_rad
      and nu = zero_rad and attractor = 0 and attractor_k = earth_k and epoch = 0, THEN conjunct1]
  note B = elements_as_supplied_or_in_degrees [where w = "\<lparr>heap = [Body earth_k], calls = []\<rparr>"
      and attractor = 0 and attractor_k = earth_k and epoch = 0
      and r = "\<lparr>vmagnitude = (7000, 0, 0), vunit = u_km\<rparr>"
      and v = "\<lparr>vmagnitude = (0, 15 / 2, 0), vunit = u_km_s\<rparr>", THEN conjunct2]
  have a: "case State_from_elements 0 1 0 world_elements of
      (res, w1) \<Rightarrow>
        res = Inr 2 \<and> State_elements 2 w1 = (Inr 1, w1) \<and>
        deref (heap w1) 1 = Some (Seq [a_metres, ecc_tenth, zero_rad, zero_rad, zero_rad, zero_rad])"
  proof -
    have hyps: "deref (heap world_elements) 1 = Some (Seq [a_metres, ecc_tenth, zero_rad, zero_rad, zero_rad, zero_rad]) \<and>
        check_units (map qunit [a_metres, ecc_tenth, zero_rad, zero_rad, zero_rad, zero_rad])
          [u_m, u_one, u_rad, u_rad, u_rad, u_rad] \<and>
        deref (heap world_elements) 0 = Some (Body earth_k) \<and>
        same_dimension (qunit earth_k) u_km3_s2"
      using example_units by (simp add: world_elements_def deref_def)
    have len: "length (heap world_elements) = 2" by (simp add: world_elements_def)
    show ?thesis using A [THEN mp, OF hyps] by (simp only: len)
  qed
  have b: "case State_from_vectors 0 \<lparr>vmagnitude = (7000, 0, 0), vunit = u_km\<rparr>
           \<lparr>vmagnitude = (0, 15 / 2, 0), vunit = u_km_s\<rparr> 0 \<lparr>heap = [Body earth_k], calls = []\<rparr> of
      (res, w1) \<Rightarrow>
        res = Inr 1 \<and>
        (case State_elements 1 w1 of
           (res2, w2) \<Rightarrow>
             res2 = Inr 2 \<and>
             (case rv2coe (3986004418 / 10000) (7000, 0, 0) (0, 15 / 2, 0) of
                (a', ecc', inc', raan', argp', nu') \<Rightarrow>
                  deref (heap w2) 2 =
                    Some (Seq [\<lparr>magnitude = a', qunit = u_km\<rparr>, \<lparr>magnitude = ecc', qunit = u_one\<rparr>,
                               \<lparr>magnitude = inc' * 180 / pi, qunit = u_deg\<rparr>,
                               \<lparr>magnitude = raan' * 180 / pi, qunit = u_deg\<rparr>,
                               \<lparr>magnitude = argp' * 180 / pi, qunit = u_deg\<rparr>,
                               \<lparr>magnitude = nu' * 180 / pi, qunit = u_deg\<rparr>])))"
  proof -
    have hyps: "check_units [vunit \<lparr>vmagnitude = (7000, 0, 0), vunit = u_km\<rparr>,
                             vunit \<lparr>vmagnitude = (0, 15 / 2, 0), vunit = u_km_s\<rparr>] [u_m, u_m_s] \<and>
        deref (heap \<lparr>heap = [Body earth_k], calls = []\<rparr>) 0 = Some (Body earth_k) \<and>
        same_dimension (qunit earth_k) u_km3_s2"
      using chk example_units(2) by (simp add: deref_def)
    have len: "length (heap \<lparr>heap = [Body earth_k], calls = []\<rparr>) = 1" "Suc 1 = 2" by simp_all
    have vals: "magnitude (convert earth_k u_km3_s2) = 3986004418 / 10000"
      "vmul (vmagnitude \<lparr>vmagnitude = (7000, 0, 0), vunit = u_km\<rparr>)
            (scale (vunit \<lparr>vmagnitude = (7000, 0, 0), vunit = u_km\<rparr>) / scale u_km) = (7000, 0, 0)"
      "vmul (vmagnitude \<lparr>vmagnitude = (0, 15 / 2, 0), vunit = u_km_s\<rparr>)
            (scale (vunit \<lparr>vmagnitude = (0, 15 / 2, 0), vunit = u_km_s\<rparr>) / scale u_km_s) = (0, 15 / 2, 0)"
      by (simp_all add: earth_k_km u_km_def u_km_s_def udiv_def u_s_def)
    show ?thesis using B [THEN mp, OF hyps] by (simp only: len vals)
  qed
  show ?thesis using a b by simp
qed

end
